theory Spec2Isabelle
  imports Main "HOL-Library.Word"
begin

unbundle bit_operations_syntax

section \<open>The character-LCD controller (package adafruit\_charlcd)\<close>

subsection \<open>Bytes, errors and the Connection interface\<close>

text \<open>
  Go's \<open>byte\<close> is an 8-bit word: \<open>+\<close> wraps, \<open>|\<close>, \<open>&\<close> and \<open>^\<close> are
  \<open>OR\<close>, \<open>AND\<close> and \<open>NOT\<close>. The three mode types \<open>entryMode\<close>,
  \<open>displayMode\<close> and \<open>functionMode\<close> are declared as \<open>byte\<close>.
\<close>

type_synonym byte = "8 word"
type_synonym entryMode = byte
type_synonym displayMode = byte
type_synonym functionMode = byte

text \<open>An opaque transport error (Go's \<open>error\<close> value returned by a bus or a pin).\<close>

datatype io_error = IOError nat

text \<open>
  \<open>Connection\<close> is an interface: the controller only calls its method
  \<open>Write(rs bool, data byte) error\<close>, whatever the implementation behind it. A
  connection is given here by the calls made on it so far (\<open>sent\<close>, in order) and by
  the result its implementation gives to the next call, as a function of that history
  (\<open>reply\<close>); \<open>None\<close> is Go's \<open>nil\<close> error. Every deterministic implementation
  has this form.
\<close>

record Connection =
  sent :: "(bool \<times> byte) list"
  reply :: "(bool \<times> byte) list \<Rightarrow> bool \<times> byte \<Rightarrow> io_error option"

definition Write :: "bool \<Rightarrow> byte \<Rightarrow> Connection \<Rightarrow> io_error option \<times> Connection" where
  "Write rs data c = (reply c (sent c) (rs, data), c\<lparr>sent := sent c @ [(rs, data)]\<rparr>)"

subsection \<open>Constants\<close>

definition lcdInit :: byte where "lcdInit = 0x33"
definition lcdInit4bit :: byte where "lcdInit4bit = 0x32"

definition lcdClearDisplay :: byte where "lcdClearDisplay = 0x01"
definition lcdReturnHome :: byte where "lcdReturnHome = 0x02"
definition lcdCursorShift :: byte where "lcdCursorShift = 0x10"
definition lcdSetCGRamAddr :: byte where "lcdSetCGRamAddr = 0x40"
definition lcdSetDDRamAddr :: byte where "lcdSetDDRamAddr = 0x80"

definition lcdCursorMove :: byte where "lcdCursorMove = 0x00"
definition lcdDisplayMove :: byte where "lcdDisplayMove = 0x08"
definition lcdMoveLeft :: byte where "lcdMoveLeft = 0x00"
definition lcdMoveRight :: byte where "lcdMoveRight = 0x04"

definition lcdSetEntryMode :: entryMode where "lcdSetEntryMode = 0x04"
definition lcdEntryDecrement :: entryMode where "lcdEntryDecrement = 0x00"
definition lcdEntryIncrement :: entryMode where "lcdEntryIncrement = 0x02"
definition lcdEntryShiftOff :: entryMode where "lcdEntryShiftOff = 0x00"
definition lcdEntryShiftOn :: entryMode where "lcdEntryShiftOn = 0x01"

definition lcdSetDisplayMode :: displayMode where "lcdSetDisplayMode = 0x08"
definition lcdDisplayOff :: displayMode where "lcdDisplayOff = 0x00"
definition lcdDisplayOn :: displayMode where "lcdDisplayOn = 0x04"
definition lcdCursorOff :: displayMode where "lcdCursorOff = 0x00"
definition lcdCursorOn :: displayMode where "lcdCursorOn = 0x02"
definition lcdBlinkOff :: displayMode where "lcdBlinkOff = 0x00"
definition lcdBlinkOn :: displayMode where "lcdBlinkOn = 0x01"

definition lcdSetFunctionMode :: functionMode where "lcdSetFunctionMode = 0x20"
definition lcd4BitMode :: functionMode where "lcd4BitMode = 0x00"
definition lcd8BitMode :: functionMode where "lcd8BitMode = 0x10"
definition lcd1Line :: functionMode where "lcd1Line = 0x00"
definition lcd2Line :: functionMode where "lcd2Line = 0x08"
definition lcd5x8Dots :: functionMode where "lcd5x8Dots = 0x00"
definition lcd5x10Dots :: functionMode where "lcd5x10Dots = 0x04"

subsection \<open>The controller state\<close>

text \<open>
  \<open>RowAddress\<close> is the array type \<open>[4]byte\<close>. Indexing it with an \<open>int\<close> outside
  \<open>0..3\<close> is a run-time panic in Go (index out of range), which \<open>index_RowAddress\<close>
  returns as a value.
\<close>

datatype RowAddress = RowAddress byte byte byte byte

datatype panic = IndexOutOfRange int

fun index_RowAddress :: "RowAddress \<Rightarrow> int \<Rightarrow> panic + byte" where
  "index_RowAddress (RowAddress a0 a1 a2 a3) i =
     (if i = 0 then Inr a0
      else if i = 1 then Inr a1
      else if i = 2 then Inr a2
      else if i = 3 then Inr a3
      else Inl (IndexOutOfRange i))"

definition RowAddress16Col :: RowAddress where
  "RowAddress16Col = RowAddress 0x00 0x40 0x10 0x50"

definition RowAddress20Col :: RowAddress where
  "RowAddress20Col = RowAddress 0x00 0x40 0x14 0x54"

record ADAFRUIT_CHARLCD =
  Connection :: Connection
  eMode :: entryMode
  dMode :: displayMode
  fMode :: functionMode
  rowAddr :: RowAddress

text \<open>
  A \<open>ModeSetter\<close> is a Go function \<open>func(*ADAFRUIT_CHARLCD)\<close> that mutates the
  controller in place: a state transformer.
\<close>

type_synonym ModeSetter = "ADAFRUIT_CHARLCD \<Rightarrow> ADAFRUIT_CHARLCD"

definition EntryDecrement :: ModeSetter where
  "EntryDecrement lcd = lcd\<lparr>eMode := eMode lcd AND NOT lcdEntryIncrement\<rparr>"

definition EntryIncrement :: ModeSetter where
  "EntryIncrement lcd = lcd\<lparr>eMode := eMode lcd OR lcdEntryIncrement\<rparr>"

definition EntryShiftOff :: ModeSetter where
  "EntryShiftOff lcd = lcd\<lparr>eMode := eMode lcd AND NOT lcdEntryShiftOn\<rparr>"

definition EntryShiftOn :: ModeSetter where
  "EntryShiftOn lcd = lcd\<lparr>eMode := eMode lcd OR lcdEntryShiftOn\<rparr>"

definition DisplayOff :: ModeSetter where
  "DisplayOff lcd = lcd\<lparr>dMode := dMode lcd AND NOT lcdDisplayOn\<rparr>"

definition DisplayOn :: ModeSetter where
  "DisplayOn lcd = lcd\<lparr>dMode := dMode lcd OR lcdDisplayOn\<rparr>"

definition CursorOff :: ModeSetter where
  "CursorOff lcd = lcd\<lparr>dMode := dMode lcd AND NOT lcdCursorOn\<rparr>"

definition CursorOn :: ModeSetter where
  "CursorOn lcd = lcd\<lparr>dMode := dMode lcd OR lcdCursorOn\<rparr>"

definition BlinkOff :: ModeSetter where
  "BlinkOff lcd = lcd\<lparr>dMode := dMode lcd AND NOT lcdBlinkOn\<rparr>"

definition BlinkOn :: ModeSetter where
  "BlinkOn lcd = lcd\<lparr>dMode := dMode lcd OR lcdBlinkOn\<rparr>"

definition FourBitMode :: ModeSetter where
  "FourBitMode lcd = lcd\<lparr>fMode := fMode lcd AND NOT lcd8BitMode\<rparr>"

definition EightBitMode :: ModeSetter where
  "EightBitMode lcd = lcd\<lparr>fMode := fMode lcd OR lcd8BitMode\<rparr>"

definition OneLine :: ModeSetter where
  "OneLine lcd = lcd\<lparr>fMode := fMode lcd AND NOT lcd2Line\<rparr>"

definition TwoLine :: ModeSetter where
  "TwoLine lcd = lcd\<lparr>fMode := fMode lcd OR lcd2Line\<rparr>"

definition Dots5x8 :: ModeSetter where
  "Dots5x8 lcd = lcd\<lparr>fMode := fMode lcd AND NOT lcd5x10Dots\<rparr>"

definition Dots5x10 :: ModeSetter where
  "Dots5x10 lcd = lcd\<lparr>fMode := fMode lcd OR lcd5x10Dots\<rparr>"

definition DefaultModes :: "ModeSetter list" where
  "DefaultModes =
     [FourBitMode, TwoLine, Dots5x8, EntryIncrement, EntryShiftOff, DisplayOn, CursorOff, BlinkOff]"

text \<open>The getters; \<open>x & flag > 0\<close> on bytes is an unsigned comparison.\<close>

definition EntryIncrementEnabled :: "ADAFRUIT_CHARLCD \<Rightarrow> bool" where
  "EntryIncrementEnabled lcd = (eMode lcd AND lcdEntryIncrement > 0)"

definition EntryShiftEnabled :: "ADAFRUIT_CHARLCD \<Rightarrow> bool" where
  "EntryShiftEnabled lcd = (eMode lcd AND lcdEntryShiftOn > 0)"

definition DisplayEnabled :: "ADAFRUIT_CHARLCD \<Rightarrow> bool" where
  "DisplayEnabled lcd = (dMode lcd AND lcdDisplayOn > 0)"

definition CursorEnabled :: "ADAFRUIT_CHARLCD \<Rightarrow> bool" where
  "CursorEnabled lcd = (dMode lcd AND lcdCursorOn > 0)"

definition BlinkEnabled :: "ADAFRUIT_CHARLCD \<Rightarrow> bool" where
  "BlinkEnabled lcd = (dMode lcd AND lcdBlinkOn > 0)"

definition EightBitModeEnabled :: "ADAFRUIT_CHARLCD \<Rightarrow> bool" where
  "EightBitModeEnabled lcd = (fMode lcd AND lcd8BitMode > 0)"

definition TwoLineEnabled :: "ADAFRUIT_CHARLCD \<Rightarrow> bool" where
  "TwoLineEnabled lcd = (fMode lcd AND lcd2Line > 0)"

definition Dots5x10Enabled :: "ADAFRUIT_CHARLCD \<Rightarrow> bool" where
  "Dots5x10Enabled lcd = (fMode lcd AND lcd5x8Dots > 0)"

subsection \<open>Commands\<close>

definition WriteInstruction :: "byte \<Rightarrow> ADAFRUIT_CHARLCD \<Rightarrow> io_error option \<times> ADAFRUIT_CHARLCD" where
  "WriteInstruction v lcd =
     (case Write False v (Connection lcd) of (r, c) \<Rightarrow> (r, lcd\<lparr>Connection := c\<rparr>))"

definition WriteChar :: "byte \<Rightarrow> ADAFRUIT_CHARLCD \<Rightarrow> io_error option \<times> ADAFRUIT_CHARLCD" where
  "WriteChar v lcd =
     (case Write True v (Connection lcd) of (r, c) \<Rightarrow> (r, lcd\<lparr>Connection := c\<rparr>))"

definition setEntryMode :: "ADAFRUIT_CHARLCD \<Rightarrow> io_error option \<times> ADAFRUIT_CHARLCD" where
  "setEntryMode lcd = WriteInstruction (lcdSetEntryMode OR eMode lcd) lcd"

definition setDisplayMode :: "ADAFRUIT_CHARLCD \<Rightarrow> io_error option \<times> ADAFRUIT_CHARLCD" where
  "setDisplayMode lcd = WriteInstruction (lcdSetDisplayMode OR dMode lcd) lcd"

definition setFunctionMode :: "ADAFRUIT_CHARLCD \<Rightarrow> io_error option \<times> ADAFRUIT_CHARLCD" where
  "setFunctionMode lcd = WriteInstruction (lcdSetFunctionMode OR fMode lcd) lcd"

text \<open>
  The second loop of \<open>SetMode\<close>: call each function of the slice in turn and return at
  the first error.
\<close>

fun run_functions ::
  "(ADAFRUIT_CHARLCD \<Rightarrow> io_error option \<times> ADAFRUIT_CHARLCD) list \<Rightarrow> ADAFRUIT_CHARLCD
     \<Rightarrow> io_error option \<times> ADAFRUIT_CHARLCD" where
  "run_functions [] lcd = (None, lcd)"
| "run_functions (f # fs) lcd =
     (case f lcd of
        (Some err, lcd') \<Rightarrow> (Some err, lcd')
      | (None, lcd') \<Rightarrow> run_functions fs lcd')"

text \<open>The first loop of \<open>SetMode\<close>: \<open>for _, m := range modes { m(hd) }\<close>.\<close>

definition apply_modes :: "ModeSetter list \<Rightarrow> ADAFRUIT_CHARLCD \<Rightarrow> ADAFRUIT_CHARLCD" where
  "apply_modes modes lcd = foldl (\<lambda>h m. m h) lcd modes"

definition SetMode :: "ModeSetter list \<Rightarrow> ADAFRUIT_CHARLCD \<Rightarrow> io_error option \<times> ADAFRUIT_CHARLCD" where
  "SetMode modes lcd =
     run_functions [setDisplayMode, setFunctionMode, setEntryMode] (apply_modes modes lcd)"

text \<open>
  \<open>Clear\<close>: the clear-display instruction, then (after the sleep, which has no effect
  on the state) \<open>SetMode()\<close> with no setters.
\<close>

definition Clear :: "ADAFRUIT_CHARLCD \<Rightarrow> io_error option \<times> ADAFRUIT_CHARLCD" where
  "Clear lcd =
     (case WriteInstruction lcdClearDisplay lcd of
        (Some err, lcd') \<Rightarrow> (Some err, lcd')
      | (None, lcd') \<Rightarrow> SetMode [] lcd')"

definition SetDDRamAddr :: "byte \<Rightarrow> ADAFRUIT_CHARLCD \<Rightarrow> io_error option \<times> ADAFRUIT_CHARLCD" where
  "SetDDRamAddr v lcd = WriteInstruction (lcdSetDDRamAddr OR v) lcd"

text \<open>
  \<open>lcdRowOffset\<close> lowers a row above 3 to 3 and indexes the array; it has no lower
  guard, so the index expression panics on a negative row.
\<close>

definition lcdRowOffset :: "ADAFRUIT_CHARLCD \<Rightarrow> int \<Rightarrow> panic + byte" where
  "lcdRowOffset lcd row = index_RowAddress (rowAddr lcd) (if row > 3 then 3 else row)"

text \<open>
  \<open>SetCursor\<close>: \<open>byte(col)\<close> keeps the low eight bits of \<open>col\<close>, and the sum is a
  byte sum. The argument \<open>byte(col) + hd.lcdRowOffset(row)\<close> is evaluated before
  \<open>SetDDRamAddr\<close> is called, so a panic leaves the controller and the connection as they
  were.
\<close>

definition SetCursor ::
  "int \<Rightarrow> int \<Rightarrow> ADAFRUIT_CHARLCD \<Rightarrow> panic + (io_error option \<times> ADAFRUIT_CHARLCD)" where
  "SetCursor col row lcd =
     (case lcdRowOffset lcd row of
        Inl p \<Rightarrow> Inl p
      | Inr off \<Rightarrow> Inr (SetDDRamAddr (word_of_int col + off) lcd))"

section \<open>The I2C connection\<close>

text \<open>
  Modelled from the spec: the bus transport \<open>embd.I2CBus\<close>, whose declaration is not
  among the sources; the spec gives it as
  \<open>write_byte_to_register(address, register, value) -> Result<(), IOError>\<close>. A bus is
  the register writes issued on it so far (\<open>issued\<close>, each an address, a register and a
  value, in order) and the result it gives to the next write as a function of that
  history (\<open>outcome\<close>). A write that fails was still issued.
\<close>

type_synonym reg_write = "byte \<times> byte \<times> byte"

record I2CBus =
  issued :: "reg_write list"
  outcome :: "reg_write list \<Rightarrow> reg_write \<Rightarrow> io_error option"

definition WriteByteToReg :: "byte \<Rightarrow> byte \<Rightarrow> byte \<Rightarrow> I2CBus \<Rightarrow> io_error option \<times> I2CBus" where
  "WriteByteToReg addr reg v bus =
     (outcome bus (issued bus) (addr, reg, v), bus\<lparr>issued := issued bus @ [(addr, reg, v)]\<rparr>)"

text \<open>\<open>BacklightPolarity\<close> is a \<open>bool\<close>: \<open>Negative = false\<close>, \<open>Positive = true\<close>.\<close>

record I2CPinMap =
  RS :: byte
  RW :: byte
  EN :: byte
  D4 :: byte
  D5 :: byte
  D6 :: byte
  D7 :: byte
  Backlight :: byte
  BLPolarity :: bool

definition MCP230XXPinMap :: I2CPinMap where
  "MCP230XXPinMap =
     \<lparr>RS = 7, RW = 6, EN = 5, D4 = 4, D5 = 3, D6 = 2, D7 = 1, Backlight = 0, BLPolarity = True\<rparr>"

record I2CConnection =
  I2C :: I2CBus
  Addr :: byte
  PinMap :: I2CPinMap
  Backlight :: bool

text \<open>
  \<open>NewI2CConnection\<close> has no error result. Each of its five register writes is
  \<open>_ = x.I2C.WriteByteToReg(...)\<close>: the result is dropped and the next write follows.
  The field \<open>Backlight\<close> is not set and keeps Go's zero value \<open>false\<close>.
\<close>

definition NewI2CConnection :: "I2CBus \<Rightarrow> byte \<Rightarrow> I2CPinMap \<Rightarrow> I2CConnection" where
  "NewI2CConnection i2c addr pinMap =
     (let x = \<lparr>I2C = i2c, Addr = addr, PinMap = pinMap, Backlight = False\<rparr>;
          x = x\<lparr>I2C := snd (WriteByteToReg addr 0x05 0x00 (I2C x))\<rparr>;
          x = x\<lparr>I2C := snd (WriteByteToReg addr 0x0A 0x20 (I2C x))\<rparr>;
          x = x\<lparr>I2C := snd (WriteByteToReg addr 0x12 0x40 (I2C x))\<rparr>;
          x = x\<lparr>I2C := snd (WriteByteToReg addr 0x00 0x00 (I2C x))\<rparr>;
          x = x\<lparr>I2C := snd (WriteByteToReg addr 0x01 0x00 (I2C x))\<rparr>
      in x)"

text \<open>
  Go's \<open>x << n\<close> on a byte with a byte count: bits shifted out are lost and a count of 8
  or more gives 0. \<open>x >> k\<close> is \<open>drop_bit k x\<close>.
\<close>

definition shl :: "byte \<Rightarrow> byte \<Rightarrow> byte" where
  "shl x n = push_bit (unat n) x"

definition instructionHigh :: "I2CPinMap \<Rightarrow> byte \<Rightarrow> byte" where
  "instructionHigh pm data =
     (((0x00 OR shl (drop_bit 4 data AND 0x01) (D4 pm))
        OR shl (drop_bit 5 data AND 0x01) (D5 pm))
        OR shl (drop_bit 6 data AND 0x01) (D6 pm))
        OR shl (drop_bit 7 data AND 0x01) (D7 pm)"

definition instructionLow :: "I2CPinMap \<Rightarrow> byte \<Rightarrow> byte" where
  "instructionLow pm data =
     (((0x00 OR shl (data AND 0x01) (D4 pm))
        OR shl (drop_bit 1 data AND 0x01) (D5 pm))
        OR shl (drop_bit 2 data AND 0x01) (D6 pm))
        OR shl (drop_bit 3 data AND 0x01) (D7 pm)"

text \<open>
  The loop of \<open>pulseEnable\<close> over its three bytes, returning at the first error. The
  calls of \<open>time.Sleep\<close> and \<open>glog\<close> in \<open>pulseEnable\<close> and \<open>Write\<close> change neither
  the connection nor the bus and are left out.
\<close>

fun pulse_loop :: "byte list \<Rightarrow> I2CConnection \<Rightarrow> io_error option \<times> I2CConnection" where
  "pulse_loop [] conn = (None, conn)"
| "pulse_loop (b # bs) conn =
     (case WriteByteToReg (Addr conn) 0x13 b (I2C conn) of
        (Some err, bus) \<Rightarrow> (Some err, conn\<lparr>I2C := bus\<rparr>)
      | (None, bus) \<Rightarrow> pulse_loop bs (conn\<lparr>I2C := bus\<rparr>))"

definition pulseEnable :: "byte \<Rightarrow> I2CConnection \<Rightarrow> io_error option \<times> I2CConnection" where
  "pulseEnable data conn =
     pulse_loop [data, data OR shl 0x01 (EN (PinMap conn)), data] conn"

text \<open>The loop of \<open>Write\<close> over the two frames, returning at the first error.\<close>

fun write_loop :: "bool \<Rightarrow> byte list \<Rightarrow> I2CConnection \<Rightarrow> io_error option \<times> I2CConnection" where
  "write_loop rs [] conn = (None, conn)"
| "write_loop rs (ins # rest) conn =
     (case pulseEnable (if rs then ins OR shl 0x01 (RS (PinMap conn)) else ins) conn of
        (Some err, conn') \<Rightarrow> (Some err, conn')
      | (None, conn') \<Rightarrow> write_loop rs rest conn')"

definition I2CConnection_Write ::
  "bool \<Rightarrow> byte \<Rightarrow> I2CConnection \<Rightarrow> io_error option \<times> I2CConnection" where
  "I2CConnection_Write rs data conn =
     write_loop rs [instructionHigh (PinMap conn) data, instructionLow (PinMap conn) data] conn"

section \<open>Pin registry and GPIO driver (package embd)\<close>

text \<open>The capability flags, \<open>1 << iota\<close>.\<close>

definition CapNormal :: int where "CapNormal = 1"
definition CapI2C :: int where "CapI2C = 2"
definition CapUART :: int where "CapUART = 4"
definition CapSPI :: int where "CapSPI = 8"
definition CapGPMC :: int where "CapGPMC = 16"
definition CapLCD :: int where "CapLCD = 32"
definition CapPWM :: int where "CapPWM = 64"

record PinDesc =
  N :: int
  IDs :: "string list"
  Caps :: int

text \<open>
  \<open>PinMap\<close> is a slice of pointers to descriptors; the entries of a board's table are
  taken to be non-nil, so a registry is the list of its descriptors.
\<close>

type_synonym PinMap = "PinDesc list"

text \<open>
  The key of a lookup is an \<open>interface{}\<close>: the type switch tells a value of dynamic
  type \<open>int\<close>, one of dynamic type \<open>string\<close>, and anything else (another integer type,
  a float, \<open>nil\<close>, ...).
\<close>

datatype key = IntKey int | StringKey string | OtherKey

text \<open>The inner loop of the string case: is one of the aliases equal to the key?\<close>

fun ids_match :: "string list \<Rightarrow> string \<Rightarrow> bool" where
  "ids_match [] k = False"
| "ids_match (x # xs) k = (if x = k then True else ids_match xs k)"

fun lookup_int :: "PinMap \<Rightarrow> int \<Rightarrow> PinDesc option" where
  "lookup_int [] k = None"
| "lookup_int (pd # m) k = (if N pd = k then Some pd else lookup_int m k)"

fun lookup_string :: "PinMap \<Rightarrow> string \<Rightarrow> PinDesc option" where
  "lookup_string [] k = None"
| "lookup_string (pd # m) k = (if ids_match (IDs pd) k then Some pd else lookup_string m k)"

text \<open>\<open>Lookup\<close> returns \<open>(m[i], true)\<close> as \<open>Some\<close> and \<open>(nil, false)\<close> as \<open>None\<close>.\<close>

fun Lookup :: "PinMap \<Rightarrow> key \<Rightarrow> PinDesc option" where
  "Lookup m (IntKey k) = lookup_int m k"
| "Lookup m (StringKey k) = lookup_string m k"
| "Lookup m OtherKey = None"

text \<open>
  Modelled from the spec: the type \<open>digitalPin\<close> and its constructor
  \<open>newDigitalPin\<close>, which are not among the sources; the spec has the arbiter
  ``construct the handle (delegating physical setup to the external digital-pin
  transport)''. A handle is a pointer: two constructions give two handles, told apart
  here by a serial number. The environment of the driver records the arguments of the
  constructions so far (\<open>opened\<close>), the notices passed to \<open>glog.Infof\<close>
  (\<open>notices\<close>), the handles on which \<open>Close()\<close> was called (\<open>close_calls\<close>) and
  the result of the next \<open>Close()\<close> as a function of that history (\<open>close_reply\<close>).
\<close>

datatype digitalPin = DigitalPin int nat

text \<open>
  The interface \<open>pin\<close>: a value is a digital-pin handle or a handle of some other
  concrete type.
\<close>

datatype pin = DigitalHandle digitalPin | OtherHandle nat

record env =
  opened :: "int list"
  notices :: "key list"
  close_calls :: "pin list"
  close_reply :: "pin list \<Rightarrow> pin \<Rightarrow> io_error option"

definition newDigitalPin :: "int \<Rightarrow> env \<Rightarrow> digitalPin \<times> env" where
  "newDigitalPin n e = (DigitalPin n (length (opened e)), e\<lparr>opened := opened e @ [n]\<rparr>)"

definition pin_Close :: "pin \<Rightarrow> env \<Rightarrow> io_error option \<times> env" where
  "pin_Close p e = (close_reply e (close_calls e) p, e\<lparr>close_calls := close_calls e @ [p]\<rparr>)"

record gpioDriver =
  pinMap :: PinMap
  initializedPins :: "int \<rightharpoonup> pin"

definition newGPIODriver :: "PinMap \<Rightarrow> gpioDriver" where
  "newGPIODriver m = \<lparr>pinMap = m, initializedPins = Map.empty\<rparr>"

definition lookupKey :: "gpioDriver \<Rightarrow> key \<Rightarrow> PinDesc option" where
  "lookupKey io k = Lookup (pinMap io) k"

text \<open>
  The three errors of \<open>digitalPin\<close> are \<open>fmt.Errorf\<close> values with the messages
  ``could not find pin matching'' (\<open>NotFound\<close>), ``is already initialized for a
  different mode'' (\<open>ModeConflict\<close>) and ``cannot be used for digital io''
  (\<open>UnsupportedMode\<close>), each with the key.
\<close>

datatype gpio_error = NotFound key | ModeConflict key | UnsupportedMode key

definition digitalPin ::
  "key \<Rightarrow> gpioDriver \<Rightarrow> env \<Rightarrow> (gpio_error + digitalPin) \<times> gpioDriver \<times> env" where
  "digitalPin k io e =
     (case lookupKey io k of
        None \<Rightarrow> (Inl (NotFound k), io, e)
      | Some pd \<Rightarrow>
          (let n = N pd in
           case initializedPins io n of
             Some p \<Rightarrow>
               (case p of
                  DigitalHandle dp \<Rightarrow> (Inr dp, io, e)
                | OtherHandle _ \<Rightarrow> (Inl (ModeConflict k), io, e))
           | None \<Rightarrow>
               if Caps pd AND CapNormal = 0 then (Inl (UnsupportedMode k), io, e)
               else
                 (let e1 = (if Caps pd \<noteq> CapNormal then e\<lparr>notices := notices e @ [k]\<rparr> else e);
                      (dp, e2) = newDigitalPin n e1
                  in (Inr dp, io\<lparr>initializedPins := (initializedPins io)(n \<mapsto> DigitalHandle dp)\<rparr>, e2))))"

text \<open>
  \<open>Close\<close> ranges over the map \<open>initializedPins\<close>. Go leaves the order of a map range
  unspecified, so the order of the visit is a parameter: \<open>order\<close> lists the keys as the
  range yields them. The loop returns at the first \<open>Close()\<close> that fails; nothing is
  deleted from the map.
\<close>

fun close_loop :: "pin list \<Rightarrow> env \<Rightarrow> io_error option \<times> env" where
  "close_loop [] e = (None, e)"
| "close_loop (p # ps) e =
     (case pin_Close p e of
        (Some err, e') \<Rightarrow> (Some err, e')
      | (None, e') \<Rightarrow> close_loop ps e')"

definition Close :: "int list \<Rightarrow> gpioDriver \<Rightarrow> env \<Rightarrow> io_error option \<times> gpioDriver \<times> env" where
  "Close order io e =
     (case close_loop (List.map_filter (initializedPins io) order) e of
        (r, e') \<Rightarrow> (r, io, e'))"

section \<open>Example inputs\<close>

text \<open>
  Concrete environments for the instances below: one that accepts every call, and one
  that fails exactly the call made after \<open>n\<close> earlier ones.
\<close>

definition no_error :: "'a \<Rightarrow> 'b \<Rightarrow> io_error option" where
  "no_error h x = None"

definition error_at :: "nat \<Rightarrow> 'a list \<Rightarrow> 'b \<Rightarrow> io_error option" where
  "error_at n h x = (if length h = n then Some (IOError n) else None)"

text \<open>
  A controller on a 16-column display with all mode bits clear, as \<open>New\<close> builds it
  before it initialises the display.
\<close>

definition example_lcd :: "((bool \<times> byte) list \<Rightarrow> bool \<times> byte \<Rightarrow> io_error option) \<Rightarrow> ADAFRUIT_CHARLCD" where
  "example_lcd rep =
     \<lparr>Connection = \<lparr>sent = [], reply = rep\<rparr>, eMode = 0, dMode = 0, fMode = 0,
      rowAddr = RowAddress16Col\<rparr>"

text \<open>
  The pin map of the spec's example (D4 on bit 1, D5 on bit 2, D6 on bit 3, D7 on bit 4,
  RS on bit 7, EN on bit 5), on an expander at address \<open>0x20\<close>.
\<close>

definition example_pins :: I2CPinMap where
  "example_pins =
     \<lparr>RS = 7, RW = 6, EN = 5, D4 = 1, D5 = 2, D6 = 3, D7 = 4, Backlight = 0, BLPolarity = True\<rparr>"

definition example_conn :: "(reg_write list \<Rightarrow> reg_write \<Rightarrow> io_error option) \<Rightarrow> I2CConnection" where
  "example_conn out =
     \<lparr>I2C = \<lparr>issued = [], outcome = out\<rparr>, Addr = 0x20, PinMap = example_pins, Backlight = False\<rparr>"

text \<open>
  A registry of three pins: pin 10 is a dedicated digital pin, pin 20 can only be an I2C
  line, pin 30 is a digital pin that can also do PWM. The environment starts with no
  handle constructed, no notice and no \<open>Close()\<close> call.
\<close>

definition example_pinmap :: PinMap where
  "example_pinmap =
     [\<lparr>N = 10, IDs = [''P8_31'', ''GPIO_10''], Caps = 1\<rparr>,
      \<lparr>N = 20, IDs = [''P9_19'', ''I2C2_SCL''], Caps = 2\<rparr>,
      \<lparr>N = 30, IDs = [''P9_14''], Caps = 65\<rparr>]"

definition example_env :: "(pin list \<Rightarrow> pin \<Rightarrow> io_error option) \<Rightarrow> env" where
  "example_env rep = \<lparr>opened = [], notices = [], close_calls = [], close_reply = rep\<rparr>"

definition example_driver :: "(int \<rightharpoonup> pin) \<Rightarrow> gpioDriver" where
  "example_driver pins = \<lparr>pinMap = example_pinmap, initializedPins = pins\<rparr>"

section \<open>Properties of the controller\<close>

subsection \<open>Mode setters and getters\<close>

lemma or_and_same: "(x OR m) AND m = (m::byte)"
  by (simp add: bit_eq_iff bit_simps) blast?

lemma and_not_and_same: "(x AND NOT m) AND m = (0::byte)"
  by (simp add: bit_eq_iff bit_simps)

text \<open>Each of the sixteen setters is idempotent.\<close>

lemma setters_idempotent:
  "EntryDecrement (EntryDecrement lcd) = EntryDecrement lcd"
  "EntryIncrement (EntryIncrement lcd) = EntryIncrement lcd"
  "EntryShiftOff (EntryShiftOff lcd) = EntryShiftOff lcd"
  "EntryShiftOn (EntryShiftOn lcd) = EntryShiftOn lcd"
  "DisplayOff (DisplayOff lcd) = DisplayOff lcd"
  "DisplayOn (DisplayOn lcd) = DisplayOn lcd"
  "CursorOff (CursorOff lcd) = CursorOff lcd"
  "CursorOn (CursorOn lcd) = CursorOn lcd"
  "BlinkOff (BlinkOff lcd) = BlinkOff lcd"
  "BlinkOn (BlinkOn lcd) = BlinkOn lcd"
  "FourBitMode (FourBitMode lcd) = FourBitMode lcd"
  "EightBitMode (EightBitMode lcd) = EightBitMode lcd"
  "OneLine (OneLine lcd) = OneLine lcd"
  "TwoLine (TwoLine lcd) = TwoLine lcd"
  "Dots5x8 (Dots5x8 lcd) = Dots5x8 lcd"
  "Dots5x10 (Dots5x10 lcd) = Dots5x10 lcd"
  by (simp_all add: EntryDecrement_def EntryIncrement_def EntryShiftOff_def EntryShiftOn_def
      DisplayOff_def DisplayOn_def CursorOff_def CursorOn_def BlinkOff_def BlinkOn_def
      FourBitMode_def EightBitMode_def OneLine_def TwoLine_def Dots5x8_def Dots5x10_def)

lemma flags_positive:
  "0 < lcdEntryIncrement" "0 < lcdEntryShiftOn" "0 < lcdDisplayOn" "0 < lcdCursorOn"
  "0 < lcdBlinkOn" "0 < lcd8BitMode" "0 < lcd2Line" "0 < lcd5x10Dots"
  by (simp_all add: lcdEntryIncrement_def lcdEntryShiftOn_def lcdDisplayOn_def lcdCursorOn_def
      lcdBlinkOn_def lcd8BitMode_def lcd2Line_def lcd5x10Dots_def)

text \<open>
  Seven of the eight getters test the bit that their two setters set and clear, so they
  report what the setter specified.
\<close>

lemma getters_after_setters:
  "EntryIncrementEnabled (EntryIncrement lcd)" "\<not> EntryIncrementEnabled (EntryDecrement lcd)"
  "EntryShiftEnabled (EntryShiftOn lcd)" "\<not> EntryShiftEnabled (EntryShiftOff lcd)"
  "DisplayEnabled (DisplayOn lcd)" "\<not> DisplayEnabled (DisplayOff lcd)"
  "CursorEnabled (CursorOn lcd)" "\<not> CursorEnabled (CursorOff lcd)"
  "BlinkEnabled (BlinkOn lcd)" "\<not> BlinkEnabled (BlinkOff lcd)"
  "EightBitModeEnabled (EightBitMode lcd)" "\<not> EightBitModeEnabled (FourBitMode lcd)"
  "TwoLineEnabled (TwoLine lcd)" "\<not> TwoLineEnabled (OneLine lcd)"
  by (simp_all add: EntryIncrementEnabled_def EntryShiftEnabled_def DisplayEnabled_def
      CursorEnabled_def BlinkEnabled_def EightBitModeEnabled_def TwoLineEnabled_def
      EntryDecrement_def EntryIncrement_def EntryShiftOff_def EntryShiftOn_def
      DisplayOff_def DisplayOn_def CursorOff_def CursorOn_def BlinkOff_def BlinkOn_def
      FourBitMode_def EightBitMode_def OneLine_def TwoLine_def
      or_and_same and_not_and_same flags_positive)

subsection \<open>The three mode bytes\<close>

text \<open>
  What the loop over \<open>setDisplayMode\<close>, \<open>setFunctionMode\<close>, \<open>setEntryMode\<close> does to
  a controller: the calls on the connection, the result and the state, case by case.
\<close>

lemma run_mode_functions:
  "run_functions [setDisplayMode, setFunctionMode, setEntryMode] lcd =
     (let c = Connection lcd; h = sent c;
          d = (False, 0x08 OR dMode lcd);
          f = (False, 0x20 OR fMode lcd);
          e = (False, 0x04 OR eMode lcd)
      in case reply c h d of
           Some err \<Rightarrow> (Some err, lcd\<lparr>Connection := c\<lparr>sent := h @ [d]\<rparr>\<rparr>)
         | None \<Rightarrow>
             (case reply c (h @ [d]) f of
                Some err \<Rightarrow> (Some err, lcd\<lparr>Connection := c\<lparr>sent := h @ [d, f]\<rparr>\<rparr>)
              | None \<Rightarrow> (reply c (h @ [d, f]) e, lcd\<lparr>Connection := c\<lparr>sent := h @ [d, f, e]\<rparr>\<rparr>)))"
  by (simp add: setDisplayMode_def setFunctionMode_def setEntryMode_def
      lcdSetDisplayMode_def lcdSetFunctionMode_def lcdSetEntryMode_def
      WriteInstruction_def Write_def Let_def split: option.splits)

lemma run_mode_functions_fields:
  "eMode (snd (run_functions [setDisplayMode, setFunctionMode, setEntryMode] lcd)) = eMode lcd"
  "dMode (snd (run_functions [setDisplayMode, setFunctionMode, setEntryMode] lcd)) = dMode lcd"
  "fMode (snd (run_functions [setDisplayMode, setFunctionMode, setEntryMode] lcd)) = fMode lcd"
  "rowAddr (snd (run_functions [setDisplayMode, setFunctionMode, setEntryMode] lcd)) = rowAddr lcd"
  by (simp_all add: run_mode_functions Let_def del: run_functions.simps split: option.splits)

lemma apply_modes_Nil: "apply_modes [] lcd = lcd"
  by (simp add: apply_modes_def)

lemma apply_modes_Cons: "apply_modes (m # ms) lcd = apply_modes ms (m lcd)"
  by (simp add: apply_modes_def)

text \<open>
  C3 (the code departs from its documentation). \<open>Dots5x10Enabled\<close> is documented to
  return true if 5x10-pixel characters are enabled, but it tests the function mode
  against \<open>lcd5x8Dots = 0x00\<close> instead of \<open>lcd5x10Dots = 0x04\<close>. After
  \<open>SetMode(Dots5x10)\<close> on any controller, whatever the connection answers, the 5x10
  bit of the function mode is set and \<open>Dots5x10Enabled\<close> still returns false.
\<close>

theorem Dots5x10Enabled_false_after_Dots5x10:
  "fMode (snd (SetMode [Dots5x10] lcd)) AND lcd5x10Dots = lcd5x10Dots
   \<and> \<not> Dots5x10Enabled (snd (SetMode [Dots5x10] lcd))"
  by (simp add: SetMode_def run_mode_functions_fields apply_modes_def Dots5x10_def
      Dots5x10Enabled_def lcd5x8Dots_def or_and_same del: run_functions.simps)

text \<open>
  C4. \<open>SetMode(modes...)\<close> first applies every given setter to the controller, one
  after the other in the order given: the controller \<open>lcd1\<close> it then works on is the
  left fold of the setters over the controller it was called on. It then calls
  \<open>Write(false, 0x08 | dMode)\<close>, \<open>Write(false, 0x20 | fMode)\<close> and
  \<open>Write(false, 0x04 | eMode)\<close> on the connection, in this order, with the bit fields
  of \<open>lcd1\<close>. If one of the three calls returns an error, \<open>SetMode\<close> returns that error
  at once and the later bytes are not sent; if none does, exactly the three bytes were
  sent and the result is that of the last call. In every case the controller returned is
  \<open>lcd1\<close> with only the connection's record of calls extended: the three bit fields are
  those the setters left, also after a failure.
\<close>

theorem SetMode_transmits_display_function_entry:
  "SetMode modes lcd =
     (let lcd1 = foldl (\<lambda>h m. m h) lcd modes; c = Connection lcd1; h = sent c;
          d = (False, 0x08 OR dMode lcd1);
          f = (False, 0x20 OR fMode lcd1);
          e = (False, 0x04 OR eMode lcd1)
      in case reply c h d of
           Some err \<Rightarrow> (Some err, lcd1\<lparr>Connection := c\<lparr>sent := h @ [d]\<rparr>\<rparr>)
         | None \<Rightarrow>
             (case reply c (h @ [d]) f of
                Some err \<Rightarrow> (Some err, lcd1\<lparr>Connection := c\<lparr>sent := h @ [d, f]\<rparr>\<rparr>)
              | None \<Rightarrow> (reply c (h @ [d, f]) e, lcd1\<lparr>Connection := c\<lparr>sent := h @ [d, f, e]\<rparr>\<rparr>)))
   \<and> eMode (snd (SetMode modes lcd)) = eMode (foldl (\<lambda>h m. m h) lcd modes)
   \<and> dMode (snd (SetMode modes lcd)) = dMode (foldl (\<lambda>h m. m h) lcd modes)
   \<and> fMode (snd (SetMode modes lcd)) = fMode (foldl (\<lambda>h m. m h) lcd modes)"
  unfolding SetMode_def apply_modes_def
  by (simp add: run_mode_functions Let_def del: run_functions.simps split: option.splits)

text \<open>
  C5, as the code has it. \<open>Clear()\<close> calls \<open>Write(false, 0x01)\<close>. If that call returns
  an error, \<open>Clear\<close> returns it and sends nothing else. If it succeeds, \<open>Clear\<close> runs
  \<open>SetMode()\<close> with no setters: it sends the display, function and entry mode bytes
  built from the bit fields as they were before the call (\<open>0x08 | dMode\<close>,
  \<open>0x20 | fMode\<close>, \<open>0x04 | eMode\<close>), in this order, and returns at the first of them
  that fails with its error, the later ones not sent; when all three are accepted, all
  three were sent. In every case the three bit fields after \<open>Clear\<close> are those before
  it.
\<close>

theorem Clear_transmits_clear_then_modes:
  "Clear lcd =
     (let c = Connection lcd; h = sent c;
          k = (False, 0x01);
          d = (False, 0x08 OR dMode lcd);
          f = (False, 0x20 OR fMode lcd);
          e = (False, 0x04 OR eMode lcd)
      in case reply c h k of
           Some err \<Rightarrow> (Some err, lcd\<lparr>Connection := c\<lparr>sent := h @ [k]\<rparr>\<rparr>)
         | None \<Rightarrow>
            (case reply c (h @ [k]) d of
               Some err \<Rightarrow> (Some err, lcd\<lparr>Connection := c\<lparr>sent := h @ [k, d]\<rparr>\<rparr>)
             | None \<Rightarrow>
                (case reply c (h @ [k, d]) f of
                   Some err \<Rightarrow> (Some err, lcd\<lparr>Connection := c\<lparr>sent := h @ [k, d, f]\<rparr>\<rparr>)
                 | None \<Rightarrow> (reply c (h @ [k, d, f]) e, lcd\<lparr>Connection := c\<lparr>sent := h @ [k, d, f, e]\<rparr>\<rparr>))))
   \<and> eMode (snd (Clear lcd)) = eMode lcd
   \<and> dMode (snd (Clear lcd)) = dMode lcd
   \<and> fMode (snd (Clear lcd)) = fMode lcd"
proof -
  have step: "WriteInstruction lcdClearDisplay lcd =
      (reply (Connection lcd) (sent (Connection lcd)) (False, 0x01),
       lcd\<lparr>Connection := (Connection lcd)\<lparr>sent := sent (Connection lcd) @ [(False, 0x01)]\<rparr>\<rparr>)"
    by (simp add: WriteInstruction_def Write_def lcdClearDisplay_def)
  show ?thesis
    unfolding Clear_def SetMode_def apply_modes_Nil step
    by (simp add: run_mode_functions Let_def del: run_functions.simps split: option.splits)
qed

text \<open>
  The claim as stated has all three mode bytes re-transmitted whenever the clear-display
  write succeeds. On a connection that accepts \<open>0x01\<close> and fails the next call,
  \<open>Clear\<close> sends the clear-display instruction and the display mode byte, returns the
  error, and the function and entry mode bytes are never sent.
\<close>

theorem Clear_stops_at_failing_mode_byte:
  "Clear (example_lcd (error_at 1)) =
     (Some (IOError 1),
      (example_lcd (error_at 1))\<lparr>Connection :=
         \<lparr>sent = [(False, 0x01), (False, 0x08)], reply = error_at 1\<rparr>\<rparr>)"
  by (simp add: Clear_def SetMode_def apply_modes_def WriteInstruction_def Write_def
      setDisplayMode_def lcdClearDisplay_def lcdSetDisplayMode_def example_lcd_def error_at_def)

subsection \<open>Cursor positioning\<close>

lemma index_RowAddress_in_range:
  assumes "0 \<le> i" and "i \<le> 3"
  shows "index_RowAddress (RowAddress a0 a1 a2 a3) i = Inr ([a0, a1, a2, a3] ! nat i)"
proof -
  from assms have "i = 0 \<or> i = 1 \<or> i = 2 \<or> i = 3" by arith
  then show ?thesis by (auto simp: numeral_2_eq_2 numeral_3_eq_3)
qed

text \<open>
  The rows the guard of \<open>lcdRowOffset\<close> covers. For every row \<open>\<ge> 0\<close> and every
  column, \<open>SetCursor(col, row)\<close> does not panic and makes one call
  \<open>Write(false, 0x80 | (byte(col) + rowAddr[clamp(row, 0, 3)]))\<close>, whose result it
  returns; the sum is a byte sum (modulo 256). For every row above 3 it behaves as
  \<open>SetCursor(col, 3)\<close>.
\<close>

theorem SetCursor_clamps_nonnegative_row:
  assumes "0 \<le> row" and "rowAddr lcd = RowAddress a0 a1 a2 a3"
  shows "SetCursor col row lcd =
           (let c = Connection lcd;
                ins = (False, 0x80 OR (word_of_int col + [a0, a1, a2, a3] ! nat (max 0 (min row 3))))
            in Inr (reply c (sent c) ins, lcd\<lparr>Connection := c\<lparr>sent := sent c @ [ins]\<rparr>\<rparr>))
         \<and> (3 < row \<longrightarrow> SetCursor col row lcd = SetCursor col 3 lcd)"
proof -
  have "0 \<le> max 0 (min row 3)" "max 0 (min row 3) \<le> 3" by simp_all
  moreover have "(if row > 3 then 3 else row) = max 0 (min row 3)" using assms(1) by simp
  ultimately have "lcdRowOffset lcd row = Inr ([a0, a1, a2, a3] ! nat (max 0 (min row 3)))"
    unfolding lcdRowOffset_def assms(2) by (simp only: index_RowAddress_in_range)
  then show ?thesis
    by (simp add: SetCursor_def SetDDRamAddr_def WriteInstruction_def Write_def
        lcdSetDDRamAddr_def lcdRowOffset_def Let_def)
qed

text \<open>
  The theorem at row 5, column 2 of a 16-column display whose connection accepts every
  call: the instruction sent is \<open>0x80 | (2 + 0x50) = 0xD2\<close>, as for row 3.
\<close>

theorem SetCursor_clamps_witness:
  "(0::int) \<le> 5
   \<and> SetCursor 2 5 (example_lcd no_error)
       = Inr (None, (example_lcd no_error)\<lparr>Connection := \<lparr>sent = [(False, 0xD2)], reply = no_error\<rparr>\<rparr>)
   \<and> SetCursor 2 5 (example_lcd no_error) = SetCursor 2 3 (example_lcd no_error)"
  using SetCursor_clamps_nonnegative_row [where row = 5 and col = 2 and ?a0.0 = "0x00" and ?a1.0 = "0x40"
      and ?a2.0 = "0x10" and ?a3.0 = "0x50" and lcd = "example_lcd no_error"]
  by (simp add: Let_def numeral_3_eq_3 example_lcd_def RowAddress16Col_def no_error_def
      SetCursor_def lcdRowOffset_def SetDDRamAddr_def WriteInstruction_def Write_def
      lcdSetDDRamAddr_def)

text \<open>
  Below the table the guard is missing: for every negative row, on every controller, the
  index expression \<open>hd.rowAddr[row]\<close> is out of range and \<open>SetCursor\<close> panics before
  anything is sent.
\<close>

lemma SetCursor_negative_row:
  assumes "row < 0"
  shows "SetCursor col row lcd = Inl (IndexOutOfRange row)"
proof -
  obtain a0 a1 a2 a3 where "rowAddr lcd = RowAddress a0 a1 a2 a3"
    by (cases "rowAddr lcd")
  with assms show ?thesis
    by (simp add: SetCursor_def lcdRowOffset_def)
qed

text \<open>
  C2 (the code misses a case). \<open>SetCursor(col, row)\<close> is to send the set-DDRAM-address
  instruction for \<open>col + rowAddr[clamp(row, 0, 3)]\<close> for every integer row, and never to
  fail for a row out of range. \<open>lcdRowOffset\<close> brings a row above 3 back into the
  4-entry table but does nothing for a row below 0: at \<open>SetCursor(0, -1)\<close> on a
  16-column display the call panics with an index out of range and sends nothing, where
  the clamp would have sent \<open>0x80 | (0 + rowAddr[0]) = 0x80\<close>.
\<close>

theorem SetCursor_negative_row_panics:
  "SetCursor 0 (- 1) (example_lcd no_error) = Inl (IndexOutOfRange (- 1))"
  by (simp add: SetCursor_def lcdRowOffset_def example_lcd_def RowAddress16Col_def)

section \<open>Properties of the I2C connection\<close>

subsection \<open>The loops\<close>

lemma pulse_loop_fields:
  "Addr (snd (pulse_loop bs conn)) = Addr conn"
  "PinMap (snd (pulse_loop bs conn)) = PinMap conn"
  "I2CConnection.Backlight (snd (pulse_loop bs conn)) = I2CConnection.Backlight conn"
  "outcome (I2C (snd (pulse_loop bs conn))) = outcome (I2C conn)"
  by (induction bs arbitrary: conn; simp add: WriteByteToReg_def split: option.splits)+

lemma pulse_loop_append:
  "pulse_loop (xs @ ys) conn =
     (case pulse_loop xs conn of
        (Some err, conn') \<Rightarrow> (Some err, conn')
      | (None, conn') \<Rightarrow> pulse_loop ys conn')"
  by (induction xs arbitrary: conn) (simp_all add: WriteByteToReg_def split: option.splits)

lemma pulse_loop_all_succeed:
  assumes "\<forall>i<length bs. outcome (I2C conn)
             (issued (I2C conn) @ map (\<lambda>b. (Addr conn, 0x13, b)) (take i bs)) (Addr conn, 0x13, bs ! i) = None"
  shows "pulse_loop bs conn =
           (None, conn\<lparr>I2C := (I2C conn)\<lparr>issued := issued (I2C conn) @ map (\<lambda>b. (Addr conn, 0x13, b)) bs\<rparr>\<rparr>)"
  using assms
proof (induction bs arbitrary: conn)
  case Nil
  then show ?case by simp
next
  case (Cons b bs)
  let ?bus = "(I2C conn)\<lparr>issued := issued (I2C conn) @ [(Addr conn, 0x13, b)]\<rparr>"
  let ?conn = "conn\<lparr>I2C := ?bus\<rparr>"
  from Cons.prems have first: "outcome (I2C conn) (issued (I2C conn)) (Addr conn, 0x13, b) = None"
    by force
  have "\<forall>i<length bs. outcome (I2C ?conn)
          (issued (I2C ?conn) @ map (\<lambda>b. (Addr ?conn, 0x13, b)) (take i bs)) (Addr ?conn, 0x13, bs ! i) = None"
  proof (intro allI impI)
    fix i assume "i < length bs"
    then have "Suc i < length (b # bs)" by simp
    with Cons.prems [rule_format, of "Suc i"] show "outcome (I2C ?conn)
          (issued (I2C ?conn) @ map (\<lambda>b. (Addr ?conn, 0x13, b)) (take i bs)) (Addr ?conn, 0x13, bs ! i) = None"
      by simp
  qed
  from Cons.IH [OF this] first show ?case
    by (simp add: WriteByteToReg_def)
qed

lemma pulse_loop_first_failure:
  assumes "k < length bs"
    and "\<forall>i<k. outcome (I2C conn)
             (issued (I2C conn) @ map (\<lambda>b. (Addr conn, 0x13, b)) (take i bs)) (Addr conn, 0x13, bs ! i) = None"
    and "outcome (I2C conn)
             (issued (I2C conn) @ map (\<lambda>b. (Addr conn, 0x13, b)) (take k bs)) (Addr conn, 0x13, bs ! k) = Some err"
  shows "pulse_loop bs conn =
           (Some err, conn\<lparr>I2C := (I2C conn)\<lparr>issued := issued (I2C conn)
               @ map (\<lambda>b. (Addr conn, 0x13, b)) (take (Suc k) bs)\<rparr>\<rparr>)"
proof -
  have split: "bs = take k bs @ bs ! k # drop (Suc k) bs"
    using assms(1) by (simp add: id_take_nth_drop)
  have "\<forall>i<length (take k bs). outcome (I2C conn)
             (issued (I2C conn) @ map (\<lambda>b. (Addr conn, 0x13, b)) (take i (take k bs)))
             (Addr conn, 0x13, take k bs ! i) = None"
    using assms(1,2) by (simp add: min_def)
  from pulse_loop_all_succeed [OF this]
  have pre: "pulse_loop (take k bs) conn =
      (None, conn\<lparr>I2C := (I2C conn)\<lparr>issued := issued (I2C conn) @ map (\<lambda>b. (Addr conn, 0x13, b)) (take k bs)\<rparr>\<rparr>)" .
  have "pulse_loop bs conn = pulse_loop (take k bs @ bs ! k # drop (Suc k) bs) conn"
    using split by simp
  also have "\<dots> = (Some err, conn\<lparr>I2C := (I2C conn)\<lparr>issued := issued (I2C conn)
               @ map (\<lambda>b. (Addr conn, 0x13, b)) (take (Suc k) bs)\<rparr>\<rparr>)"
    unfolding pulse_loop_append pre using assms(1,3)
    by (simp add: WriteByteToReg_def take_Suc_conv_app_nth)
  finally show ?thesis .
qed

lemma write_loop_flat:
  assumes "PinMap conn = pm"
  shows "write_loop rs frames conn =
     pulse_loop (concat (map (\<lambda>ins. let x = (if rs then ins OR shl 0x01 (RS pm) else ins)
                                      in [x, x OR shl 0x01 (EN pm), x]) frames)) conn"
  using assms
proof (induction frames arbitrary: conn)
  case Nil
  then show ?case by simp
next
  case (Cons ins frames)
  let ?x = "if rs then ins OR shl 0x01 (RS pm) else ins"
  obtain r c where p: "pulse_loop [?x, ?x OR shl 0x01 (EN pm), ?x] conn = (r, c)"
    by (cases "pulse_loop [?x, ?x OR shl 0x01 (EN pm), ?x] conn")
  have "PinMap c = pm"
    using pulse_loop_fields(2) [of "[?x, ?x OR shl 0x01 (EN pm), ?x]" conn] p Cons.prems by simp
  from Cons.IH [OF this] p Cons.prems show ?case
    by (cases r) (simp_all only: write_loop.simps list.map concat.simps pulse_loop_append
        pulseEnable_def Let_def prod.case option.case)
qed

lemma nibble_bit: "drop_bit k (x::byte) AND 0x01 = of_bool (bit x k)"
  by (simp add: and_one_eq bit_iff_odd_drop_bit odd_iff_mod_2_eq_one even_iff_mod_2_eq_zero)

lemma nibble_bit0: "(x::byte) AND 0x01 = of_bool (bit x 0)"
  using nibble_bit [of 0 x] by simp

lemma pulse_loop_all_succeed':
  assumes "\<forall>i<length bs. outcome (I2C conn)
             (issued (I2C conn) @ take i (map (\<lambda>b. (Addr conn, 0x13, b)) bs))
             (map (\<lambda>b. (Addr conn, 0x13, b)) bs ! i) = None"
  shows "pulse_loop bs conn =
           (None, conn\<lparr>I2C := (I2C conn)\<lparr>issued := issued (I2C conn) @ map (\<lambda>b. (Addr conn, 0x13, b)) bs\<rparr>\<rparr>)"
  using assms by (intro pulse_loop_all_succeed) (simp add: take_map)

lemma pulse_loop_first_failure':
  assumes "k < length bs"
    and "\<forall>i<k. outcome (I2C conn)
             (issued (I2C conn) @ take i (map (\<lambda>b. (Addr conn, 0x13, b)) bs))
             (map (\<lambda>b. (Addr conn, 0x13, b)) bs ! i) = None"
    and "outcome (I2C conn)
             (issued (I2C conn) @ take k (map (\<lambda>b. (Addr conn, 0x13, b)) bs))
             (map (\<lambda>b. (Addr conn, 0x13, b)) bs ! k) = Some err"
  shows "pulse_loop bs conn =
           (Some err, conn\<lparr>I2C := (I2C conn)\<lparr>issued := issued (I2C conn)
               @ take (Suc k) (map (\<lambda>b. (Addr conn, 0x13, b)) bs)\<rparr>\<rparr>)"
  using assms pulse_loop_first_failure [of k bs conn err] by (simp add: take_map)

text \<open>
  The two nested loops of \<open>Write\<close> and \<open>pulseEnable\<close> are one pass over six bytes. The
  frames are written here with the bits of \<open>data\<close>: bit \<open>4 + j\<close> (high frame) or \<open>j\<close>
  (low frame) of the data goes to the position the pin map gives to \<open>D4\<close>, ..., \<open>D7\<close>.
\<close>

lemma frames_eq:
  "instructionHigh pm data =
     push_bit (unat (D4 pm)) (of_bool (bit data 4)) OR push_bit (unat (D5 pm)) (of_bool (bit data 5))
       OR push_bit (unat (D6 pm)) (of_bool (bit data 6)) OR push_bit (unat (D7 pm)) (of_bool (bit data 7))"
  "instructionLow pm data =
     push_bit (unat (D4 pm)) (of_bool (bit data 0)) OR push_bit (unat (D5 pm)) (of_bool (bit data 1))
       OR push_bit (unat (D6 pm)) (of_bool (bit data 2)) OR push_bit (unat (D7 pm)) (of_bool (bit data 3))"
  unfolding instructionHigh_def instructionLow_def shl_def nibble_bit
  unfolding nibble_bit0 [of data]
  by (simp_all only: or.assoc or.left_neutral)

lemma I2CConnection_Write_flat:
  "I2CConnection_Write rs data conn =
     (let pm = PinMap conn;
          rsbit = (if rs then push_bit (unat (RS pm)) 1 else 0);
          en = push_bit (unat (EN pm)) 1;
          hi = push_bit (unat (D4 pm)) (of_bool (bit data 4)) OR push_bit (unat (D5 pm)) (of_bool (bit data 5))
               OR push_bit (unat (D6 pm)) (of_bool (bit data 6)) OR push_bit (unat (D7 pm)) (of_bool (bit data 7))
               OR rsbit;
          lo = push_bit (unat (D4 pm)) (of_bool (bit data 0)) OR push_bit (unat (D5 pm)) (of_bool (bit data 1))
               OR push_bit (unat (D6 pm)) (of_bool (bit data 2)) OR push_bit (unat (D7 pm)) (of_bool (bit data 3))
               OR rsbit
      in pulse_loop [hi, hi OR en, hi, lo, lo OR en, lo] conn)"
proof (cases rs)
  case True
  then show ?thesis
    unfolding I2CConnection_Write_def write_loop_flat [OF refl] frames_eq shl_def
    by (simp only: Let_def list.map concat.simps append.simps if_True or.assoc)
next
  case False
  then show ?thesis
    unfolding I2CConnection_Write_def write_loop_flat [OF refl] frames_eq shl_def
    by (simp only: Let_def list.map concat.simps append.simps if_False or.assoc or.right_neutral or.left_neutral)
qed


text \<open>
  When the enable position is a bit of the register (below 8) and no data line and not
  the register-select line shares it, the enable bit is clear in a frame and set in the
  frame OR'd with it: the three writes of a frame strobe the enable line low, high, low.
\<close>

lemma bit_push_flag:
  "bit (push_bit (unat p) (of_bool b :: byte)) (unat q) \<longleftrightarrow> b \<and> p = q \<and> unat q < 8"
  by (auto simp add: bit_simps word_unat_eq_iff)

lemma enable_strobe:
  fixes pm :: I2CPinMap and rs :: bool
  defines "fr \<equiv> \<lambda>a b c d. push_bit (unat (D4 pm)) (of_bool a :: byte) OR push_bit (unat (D5 pm)) (of_bool b)
               OR push_bit (unat (D6 pm)) (of_bool c) OR push_bit (unat (D7 pm)) (of_bool d)
               OR (if rs then push_bit (unat (RS pm)) 1 else 0)"
  assumes "unat (EN pm) < 8" and "EN pm \<notin> {D4 pm, D5 pm, D6 pm, D7 pm, RS pm}"
  shows "\<not> bit (fr a b c d) (unat (EN pm))"
    and "bit (fr a b c d OR push_bit (unat (EN pm)) 1) (unat (EN pm))"
  using assms(2,3) bit_push_flag [of "RS pm" True "EN pm"] bit_push_flag [of "EN pm" True "EN pm"]
  by (auto simp add: fr_def bit_or_iff bit_push_flag)

subsection \<open>The writes of \<open>Write\<close>\<close>

text \<open>
  C1, as the code has it. Let \<open>hi\<close> be the high-nibble frame (data bits 4-7 at the
  positions of D4..D7, with the RS bit when \<open>rs\<close> is true), \<open>lo\<close> the low-nibble frame
  (data bits 0-3) and \<open>en\<close> the enable bit; all are functions of \<open>rs\<close>, the data byte and
  the pin map alone. The six writes are \<open>hi\<close>, \<open>hi | en\<close>, \<open>hi\<close>, \<open>lo\<close>,
  \<open>lo | en\<close>, \<open>lo\<close>, each to register \<open>0x13\<close> of the expander, the high nibble
  before the low one. If the bus accepts all six, \<open>Write\<close> issues exactly these six, in
  this order, and returns no error. If the bus fails one of them, the one at index \<open>k\<close>
  being the first, \<open>Write\<close> returns that error and has issued only the first \<open>k + 1\<close> of
  the six. And when the pin map puts the enable line on a bit of the register (a position
  below 8) that no data line and not the register-select line shares, the enable bit is
  clear in \<open>hi\<close> and \<open>lo\<close> and set in \<open>hi | en\<close> and \<open>lo | en\<close>: each frame is
  strobed low, then high, then low on the enable bit.
\<close>

theorem I2CConnection_Write_six_writes:
  "let pm = PinMap conn; bus = I2C conn;
       rsbit = (if rs then push_bit (unat (RS pm)) 1 else 0);
       en = push_bit (unat (EN pm)) 1;
       hi = push_bit (unat (D4 pm)) (of_bool (bit data 4)) OR push_bit (unat (D5 pm)) (of_bool (bit data 5))
            OR push_bit (unat (D6 pm)) (of_bool (bit data 6)) OR push_bit (unat (D7 pm)) (of_bool (bit data 7))
            OR rsbit;
       lo = push_bit (unat (D4 pm)) (of_bool (bit data 0)) OR push_bit (unat (D5 pm)) (of_bool (bit data 1))
            OR push_bit (unat (D6 pm)) (of_bool (bit data 2)) OR push_bit (unat (D7 pm)) (of_bool (bit data 3))
            OR rsbit;
       six = map (\<lambda>b. (Addr conn, 0x13, b)) [hi, hi OR en, hi, lo, lo OR en, lo]
   in ((\<forall>i<6. outcome bus (issued bus @ take i six) (six ! i) = None) \<longrightarrow>
         I2CConnection_Write rs data conn = (None, conn\<lparr>I2C := bus\<lparr>issued := issued bus @ six\<rparr>\<rparr>))
    \<and> (\<forall>k err. k < 6 \<and> (\<forall>i<k. outcome bus (issued bus @ take i six) (six ! i) = None)
            \<and> outcome bus (issued bus @ take k six) (six ! k) = Some err \<longrightarrow>
         I2CConnection_Write rs data conn =
           (Some err, conn\<lparr>I2C := bus\<lparr>issued := issued bus @ take (Suc k) six\<rparr>\<rparr>))
    \<and> (unat (EN pm) < 8 \<and> EN pm \<notin> {D4 pm, D5 pm, D6 pm, D7 pm, RS pm} \<longrightarrow>
         \<not> bit hi (unat (EN pm)) \<and> bit (hi OR en) (unat (EN pm))
         \<and> \<not> bit lo (unat (EN pm)) \<and> bit (lo OR en) (unat (EN pm)))"
  unfolding Let_def I2CConnection_Write_flat
proof (intro conjI impI allI, goal_cases)
  case 1
  then show ?case by (intro pulse_loop_all_succeed') simp
next
  case (2 k err)
  then show ?case by (intro pulse_loop_first_failure') simp_all
next
  case 3
  then show ?case by (intro enable_strobe(1)) simp_all
next
  case 4
  then show ?case by (intro enable_strobe(2)) simp_all
next
  case 5
  then show ?case by (intro enable_strobe(1)) simp_all
next
  case 6
  then show ?case by (intro enable_strobe(2)) simp_all
qed

text \<open>
  The theorem on the spec's example, \<open>data = 0x41\<close> with register select: on a bus that
  accepts every write the six values are \<open>0x88, 0xA8, 0x88, 0x82, 0xA2, 0x82\<close>; on a bus
  that fails the fourth write, \<open>Write\<close> stops after four.
\<close>

lemma example_conn_simps:
  "I2C (example_conn out) = \<lparr>issued = [], outcome = out\<rparr>"
  "Addr (example_conn out) = 0x20"
  "PinMap (example_conn out) = example_pins"
  by (simp_all add: example_conn_def)

theorem I2CConnection_Write_six_writes_witness:
  "I2CConnection_Write True 0x41 (example_conn no_error) =
     (None, (example_conn no_error)\<lparr>I2C := \<lparr>issued =
        [(0x20, 0x13, 0x88), (0x20, 0x13, 0xA8), (0x20, 0x13, 0x88),
         (0x20, 0x13, 0x82), (0x20, 0x13, 0xA2), (0x20, 0x13, 0x82)], outcome = no_error\<rparr>\<rparr>)
   \<and> I2CConnection_Write True 0x41 (example_conn (error_at 3)) =
     (Some (IOError 3), (example_conn (error_at 3))\<lparr>I2C := \<lparr>issued =
        [(0x20, 0x13, 0x88), (0x20, 0x13, 0xA8), (0x20, 0x13, 0x88), (0x20, 0x13, 0x82)],
        outcome = error_at 3\<rparr>\<rparr>)
   \<and> \<not> bit (0x88 :: byte) 5 \<and> bit (0xA8 :: byte) 5
   \<and> \<not> bit (0x82 :: byte) 5 \<and> bit (0xA2 :: byte) 5"
proof -
  have a: "I2CConnection_Write True 0x41 (example_conn no_error) =
     (None, (example_conn no_error)\<lparr>I2C := \<lparr>issued =
        [(0x20, 0x13, 0x88), (0x20, 0x13, 0xA8), (0x20, 0x13, 0x88),
         (0x20, 0x13, 0x82), (0x20, 0x13, 0xA2), (0x20, 0x13, 0x82)], outcome = no_error\<rparr>\<rparr>)"
    using I2CConnection_Write_six_writes [of "example_conn no_error" True "0x41",
        unfolded Let_def, THEN conjunct1]
    by (simp add: example_conn_simps example_pins_def no_error_def)
  have b: "I2CConnection_Write True 0x41 (example_conn (error_at 3)) =
     (Some (IOError 3), (example_conn (error_at 3))\<lparr>I2C := \<lparr>issued =
        [(0x20, 0x13, 0x88), (0x20, 0x13, 0xA8), (0x20, 0x13, 0x88), (0x20, 0x13, 0x82)],
        outcome = error_at 3\<rparr>\<rparr>)"
    using I2CConnection_Write_six_writes [of "example_conn (error_at 3)" True "0x41",
        unfolded Let_def, THEN conjunct2, THEN conjunct1, rule_format, of 3 "IOError 3"]
    by (simp add: example_conn_simps example_pins_def error_at_def)
  have c: "\<not> bit (0x88 :: byte) 5 \<and> bit (0xA8 :: byte) 5
           \<and> \<not> bit (0x82 :: byte) 5 \<and> bit (0xA2 :: byte) 5"
    using I2CConnection_Write_six_writes [of "example_conn no_error" True "0x41",
        unfolded Let_def, THEN conjunct2, THEN conjunct2]
    by (simp add: example_conn_simps example_pins_def)
  from a b c show ?thesis by (intro conjI) simp_all
qed

text \<open>
  The claim as stated promises the six strobed writes for every \<open>rs\<close>, data byte and pin
  map, whatever the bus does. Four inputs where the code does otherwise, all for the
  spec's example connection:
  \<^item> on a bus whose first write fails, \<open>pulseEnable\<close> returns the error after that write
    and \<open>Write\<close> returns it: one write is issued, not six;
  \<^item> with the enable line at position 9, outside the 8-bit register, \<open>0x01 << EN\<close> is 0
    and the enable bit is never set: each frame is written three times unchanged;
  \<^item> with the enable line on the position of D4 (bit 1), for data \<open>0x10\<close> the high
    frame already has that bit set, so its three writes are equal and the enable bit is
    not clear in the first and third;
  \<^item> with the enable line on the position of RS (bit 7) and register select on, the
    enable bit is set in all six writes.
\<close>

theorem I2CConnection_Write_not_always_six_strobed:
  "I2CConnection_Write True 0x41 (example_conn (error_at 0)) =
     (Some (IOError 0), (example_conn (error_at 0))\<lparr>I2C := \<lparr>issued = [(0x20, 0x13, 0x88)],
        outcome = error_at 0\<rparr>\<rparr>)
   \<and> issued (I2C (snd (I2CConnection_Write True 0x41
        ((example_conn no_error)\<lparr>PinMap := example_pins\<lparr>EN := 9\<rparr>\<rparr>)))) =
       [(0x20, 0x13, 0x88), (0x20, 0x13, 0x88), (0x20, 0x13, 0x88),
        (0x20, 0x13, 0x82), (0x20, 0x13, 0x82), (0x20, 0x13, 0x82)]
   \<and> issued (I2C (snd (I2CConnection_Write False 0x10
        ((example_conn no_error)\<lparr>PinMap := example_pins\<lparr>EN := 1\<rparr>\<rparr>)))) =
       [(0x20, 0x13, 0x02), (0x20, 0x13, 0x02), (0x20, 0x13, 0x02),
        (0x20, 0x13, 0x00), (0x20, 0x13, 0x02), (0x20, 0x13, 0x00)]
   \<and> issued (I2C (snd (I2CConnection_Write True 0x41
        ((example_conn no_error)\<lparr>PinMap := example_pins\<lparr>EN := 7\<rparr>\<rparr>)))) =
       [(0x20, 0x13, 0x88), (0x20, 0x13, 0x88), (0x20, 0x13, 0x88),
        (0x20, 0x13, 0x82), (0x20, 0x13, 0x82), (0x20, 0x13, 0x82)]"
  by (simp add: I2CConnection_Write_def pulseEnable_def WriteByteToReg_def example_conn_def
      example_pins_def error_at_def no_error_def instructionHigh_def instructionLow_def shl_def)

subsection \<open>The constructor\<close>

text \<open>
  C10. \<open>NewI2CConnection\<close> has no error result and always returns the connection
  built from its arguments. It issues five register writes on the bus, to \<open>0x05\<close> and
  \<open>0x0A\<close> (bank configuration), \<open>0x12\<close> (backlight off), \<open>0x00\<close> and \<open>0x01\<close>
  (port directions), in this order, whatever the bus answers to each: no result of a
  write reaches the caller, also when every write fails.
\<close>

theorem NewI2CConnection_discards_errors:
  "NewI2CConnection bus addr pm =
     \<lparr>I2C = bus\<lparr>issued := issued bus @
        [(addr, 0x05, 0x00), (addr, 0x0A, 0x20), (addr, 0x12, 0x40), (addr, 0x00, 0x00), (addr, 0x01, 0x00)]\<rparr>,
      Addr = addr, PinMap = pm, Backlight = False\<rparr>"
  by (simp add: NewI2CConnection_def WriteByteToReg_def Let_def)


section \<open>Properties of the pin registry and the GPIO driver\<close>

subsection \<open>Lookup\<close>

lemma ids_match_iff: "ids_match ids k \<longleftrightarrow> k \<in> set ids"
  by (induction ids) auto

lemma lookup_int_find: "lookup_int m k = find (\<lambda>pd. N pd = k) m"
  by (induction m) simp_all

lemma lookup_string_find: "lookup_string m k = find (\<lambda>pd. k \<in> set (IDs pd)) m"
  by (induction m) (simp_all add: ids_match_iff)

text \<open>
  C9. \<open>Lookup\<close> returns a value for every registry and every key, of whatever dynamic
  type: for an \<open>int\<close> key the first descriptor of the registry whose \<open>N\<close> equals the
  key, for a \<open>string\<close> key the first descriptor one of whose \<open>IDs\<close> equals the key,
  and \<open>(nil, false)\<close> when there is none; for a key of any other dynamic type it
  returns \<open>(nil, false)\<close>. \<open>Lookup\<close> only reads: its result is a function of the
  registry and the key, and the registry is no part of what it returns or changes.
\<close>

theorem Lookup_first_match:
  "Lookup m (IntKey n) = find (\<lambda>pd. N pd = n) m
   \<and> Lookup m (StringKey s) = find (\<lambda>pd. s \<in> set (IDs pd)) m
   \<and> Lookup m OtherKey = None"
  by (simp add: lookup_int_find lookup_string_find)

subsection \<open>Acquiring a digital pin\<close>

text \<open>The five paths through \<open>digitalPin\<close>.\<close>

lemma digitalPin_not_found:
  "lookupKey io k = None \<Longrightarrow> digitalPin k io e = (Inl (NotFound k), io, e)"
  by (simp add: digitalPin_def)

lemma digitalPin_held_digital:
  "lookupKey io k = Some pd \<Longrightarrow> initializedPins io (N pd) = Some (DigitalHandle dp)
     \<Longrightarrow> digitalPin k io e = (Inr dp, io, e)"
  by (simp add: digitalPin_def)

lemma digitalPin_held_other:
  "lookupKey io k = Some pd \<Longrightarrow> initializedPins io (N pd) = Some (OtherHandle h)
     \<Longrightarrow> digitalPin k io e = (Inl (ModeConflict k), io, e)"
  by (simp add: digitalPin_def)

lemma digitalPin_no_capability:
  "lookupKey io k = Some pd \<Longrightarrow> initializedPins io (N pd) = None \<Longrightarrow> Caps pd AND CapNormal = 0
     \<Longrightarrow> digitalPin k io e = (Inl (UnsupportedMode k), io, e)"
  by (simp add: digitalPin_def)

lemma digitalPin_fresh:
  "lookupKey io k = Some pd \<Longrightarrow> initializedPins io (N pd) = None \<Longrightarrow> Caps pd AND CapNormal \<noteq> 0
     \<Longrightarrow> digitalPin k io e =
           (Inr (DigitalPin (N pd) (length (opened e))),
            io\<lparr>initializedPins := (initializedPins io)(N pd \<mapsto> DigitalHandle (DigitalPin (N pd) (length (opened e))))\<rparr>,
            (if Caps pd \<noteq> CapNormal then e\<lparr>notices := notices e @ [k]\<rparr> else e)
              \<lparr>opened := opened e @ [N pd]\<rparr>)"
  by (simp add: digitalPin_def newDigitalPin_def Let_def)

lemma digitalPin_failure_unchanged:
  assumes "digitalPin k io e = (Inl err, io1, e1)"
  shows "io1 = io \<and> e1 = e"
proof (cases "lookupKey io k")
  case None
  with assms show ?thesis by (simp add: digitalPin_not_found)
next
  case (Some pd)
  show ?thesis
  proof (cases "initializedPins io (N pd)")
    case None
    show ?thesis
    proof (cases "Caps pd AND CapNormal = 0")
      case True
      with assms Some None show ?thesis by (simp add: digitalPin_no_capability)
    next
      case False
      with assms Some None show ?thesis by (simp add: digitalPin_fresh)
    qed
  next
    case (Some p)
    with assms \<open>lookupKey io k = Some pd\<close> show ?thesis
      by (cases p) (simp_all add: digitalPin_held_digital digitalPin_held_other)
  qed
qed

lemma example_lookups:
  "lookupKey (example_driver pins) (StringKey ''GPIO_10'') = Some \<lparr>N = 10, IDs = [''P8_31'', ''GPIO_10''], Caps = 1\<rparr>"
  "lookupKey (example_driver pins) (IntKey 10) = Some \<lparr>N = 10, IDs = [''P8_31'', ''GPIO_10''], Caps = 1\<rparr>"
  "lookupKey (example_driver pins) (IntKey 20) = Some \<lparr>N = 20, IDs = [''P9_19'', ''I2C2_SCL''], Caps = 2\<rparr>"
  "lookupKey (example_driver pins) (IntKey 30) = Some \<lparr>N = 30, IDs = [''P9_14''], Caps = 65\<rparr>"
  "lookupKey (example_driver pins) (IntKey 99) = None"
  by (simp_all add: lookupKey_def example_driver_def example_pinmap_def)

text \<open>
  C6. If the key resolves to a pin that already holds a digital-pin handle, \<open>digitalPin\<close>
  returns that handle and leaves the driver (so the map of handles) and the environment
  (so the record of constructions) as they were: no handle is constructed. And after an
  acquisition that constructed the handle of a pin that had none, exactly one
  construction was recorded, and acquiring with the same key again returns the same
  handle and changes nothing.
\<close>

theorem digitalPin_reacquire_same_handle:
  "(lookupKey io k = Some pd \<and> initializedPins io (N pd) = Some (DigitalHandle dp)
      \<longrightarrow> digitalPin k io e = (Inr dp, io, e))
   \<and> (lookupKey io k = Some pd \<and> initializedPins io (N pd) = None
        \<and> digitalPin k io e = (Inr dp, io1, e1)
      \<longrightarrow> opened e1 = opened e @ [N pd]
          \<and> initializedPins io1 = (initializedPins io)(N pd \<mapsto> DigitalHandle dp)
          \<and> digitalPin k io1 e1 = (Inr dp, io1, e1))"
proof (intro conjI impI, goal_cases)
  case 1
  then show ?case by (simp add: digitalPin_held_digital)
next
  case 2
  then have cap: "Caps pd AND CapNormal \<noteq> 0"
    by (auto simp add: digitalPin_no_capability)
  with 2 show ?case by (auto simp add: digitalPin_fresh split: if_splits)
next
  case 3
  then have cap: "Caps pd AND CapNormal \<noteq> 0"
    by (auto simp add: digitalPin_no_capability)
  with 3 show ?case by (auto simp add: digitalPin_fresh split: if_splits)
next
  case 4
  then have cap: "Caps pd AND CapNormal \<noteq> 0"
    by (auto simp add: digitalPin_no_capability)
  with 4 have io1: "io1 = io\<lparr>initializedPins := (initializedPins io)(N pd \<mapsto> DigitalHandle dp)\<rparr>"
    by (auto simp add: digitalPin_fresh split: if_splits)
  have "lookupKey io1 k = Some pd" using 4 by (simp add: io1 lookupKey_def)
  moreover have "initializedPins io1 (N pd) = Some (DigitalHandle dp)" by (simp add: io1)
  ultimately show ?case by (rule digitalPin_held_digital)
qed

text \<open>
  The theorem on the example registry: pin 10 acquired by its alias, then again by the
  alias and by its number. One construction is recorded and the same handle is returned
  three times.
\<close>

theorem digitalPin_reacquire_witness:
  "digitalPin (StringKey ''GPIO_10'') (example_driver Map.empty) (example_env no_error)
     = (Inr (DigitalPin 10 0), example_driver [10 \<mapsto> DigitalHandle (DigitalPin 10 0)],
        (example_env no_error)\<lparr>opened := [10]\<rparr>)
   \<and> digitalPin (StringKey ''GPIO_10'') (example_driver [10 \<mapsto> DigitalHandle (DigitalPin 10 0)])
        ((example_env no_error)\<lparr>opened := [10]\<rparr>)
     = (Inr (DigitalPin 10 0), example_driver [10 \<mapsto> DigitalHandle (DigitalPin 10 0)],
        (example_env no_error)\<lparr>opened := [10]\<rparr>)
   \<and> digitalPin (IntKey 10) (example_driver [10 \<mapsto> DigitalHandle (DigitalPin 10 0)])
        ((example_env no_error)\<lparr>opened := [10]\<rparr>)
     = (Inr (DigitalPin 10 0), example_driver [10 \<mapsto> DigitalHandle (DigitalPin 10 0)],
        (example_env no_error)\<lparr>opened := [10]\<rparr>)"
proof -
  let ?pd = "\<lparr>N = 10, IDs = [''P8_31'', ''GPIO_10''], Caps = 1\<rparr>"
  let ?io1 = "example_driver [10 \<mapsto> DigitalHandle (DigitalPin 10 0)]"
  let ?e1 = "(example_env no_error)\<lparr>opened := [10]\<rparr>"
  have first: "digitalPin (StringKey ''GPIO_10'') (example_driver Map.empty) (example_env no_error)
     = (Inr (DigitalPin 10 0), ?io1, ?e1)"
    by (simp add: digitalPin_def example_lookups CapNormal_def)
       (simp add: example_driver_def example_env_def newDigitalPin_def)
  have second: "digitalPin (StringKey ''GPIO_10'') ?io1 ?e1 = (Inr (DigitalPin 10 0), ?io1, ?e1)"
    using digitalPin_reacquire_same_handle [of "example_driver Map.empty" "StringKey ''GPIO_10''" ?pd
        "DigitalPin 10 0" "example_env no_error" ?io1 ?e1, THEN conjunct2] first
    by (simp add: example_lookups) (simp add: example_driver_def)
  have third: "digitalPin (IntKey 10) ?io1 ?e1 = (Inr (DigitalPin 10 0), ?io1, ?e1)"
    using digitalPin_reacquire_same_handle [of ?io1 "IntKey 10" ?pd "DigitalPin 10 0" ?e1, THEN conjunct1]
    by (simp add: example_lookups) (simp add: example_driver_def)
  from first second third show ?thesis by blast
qed

text \<open>
  C7. A call of \<open>digitalPin\<close> that returns an error returns the driver and the
  environment unchanged: the map of handles is as before, no handle was constructed or
  closed, no notice was logged. The error is not-found when the key resolves to no
  descriptor, mode-conflict when the pin holds a handle of another kind, and
  unsupported-mode when the pin holds no handle and its capabilities lack
  \<open>CapNormal\<close>. When the pin holds no handle and its capabilities include \<open>CapNormal\<close>,
  with or without other flags, the call succeeds with a newly constructed handle.
\<close>

theorem digitalPin_failures:
  "(digitalPin k io e = (Inl err, io1, e1) \<longrightarrow> io1 = io \<and> e1 = e)
   \<and> (lookupKey io k = None \<longrightarrow> digitalPin k io e = (Inl (NotFound k), io, e))
   \<and> (lookupKey io k = Some pd \<and> initializedPins io (N pd) = Some (OtherHandle h)
        \<longrightarrow> digitalPin k io e = (Inl (ModeConflict k), io, e))
   \<and> (lookupKey io k = Some pd \<and> initializedPins io (N pd) = None \<and> Caps pd AND CapNormal = 0
        \<longrightarrow> digitalPin k io e = (Inl (UnsupportedMode k), io, e))
   \<and> (lookupKey io k = Some pd \<and> initializedPins io (N pd) = None \<and> Caps pd AND CapNormal \<noteq> 0
        \<longrightarrow> fst (digitalPin k io e) = Inr (DigitalPin (N pd) (length (opened e))))"
proof (intro conjI impI, goal_cases)
  case 1
  then show ?case using digitalPin_failure_unchanged by blast
next
  case 2
  then show ?case using digitalPin_failure_unchanged by blast
next
  case 3
  then show ?case by (rule digitalPin_not_found)
next
  case 4
  then show ?case by (simp add: digitalPin_held_other)
next
  case 5
  then show ?case by (simp add: digitalPin_no_capability)
next
  case 6
  then show ?case by (simp add: digitalPin_fresh)
qed
text \<open>
  The theorem on the example registry: an unknown pin number, pin 20 held by a handle of
  another kind, pin 20 (I2C only) with no handle, and pin 30, whose capabilities are
  \<open>CapNormal | CapPWM\<close>.
\<close>

theorem digitalPin_failures_witness:
  "digitalPin (IntKey 99) (example_driver Map.empty) (example_env no_error)
     = (Inl (NotFound (IntKey 99)), example_driver Map.empty, example_env no_error)
   \<and> digitalPin (IntKey 20) (example_driver [20 \<mapsto> OtherHandle 0]) (example_env no_error)
     = (Inl (ModeConflict (IntKey 20)), example_driver [20 \<mapsto> OtherHandle 0], example_env no_error)
   \<and> digitalPin (IntKey 20) (example_driver Map.empty) (example_env no_error)
     = (Inl (UnsupportedMode (IntKey 20)), example_driver Map.empty, example_env no_error)
   \<and> fst (digitalPin (IntKey 30) (example_driver Map.empty) (example_env no_error))
     = Inr (DigitalPin 30 0)"
proof -
  let ?io = "example_driver Map.empty" and ?e = "example_env no_error"
  have a: "digitalPin (IntKey 99) ?io ?e = (Inl (NotFound (IntKey 99)), ?io, ?e)"
    using digitalPin_failures [of "IntKey 99" ?io ?e]
    by (simp add: example_lookups)
  have b: "digitalPin (IntKey 20) (example_driver [20 \<mapsto> OtherHandle 0]) ?e
      = (Inl (ModeConflict (IntKey 20)), example_driver [20 \<mapsto> OtherHandle 0], ?e)"
    using digitalPin_failures [of "IntKey 20" "example_driver [20 \<mapsto> OtherHandle 0]" ?e _ _ _
        "\<lparr>N = 20, IDs = [''P9_19'', ''I2C2_SCL''], Caps = 2\<rparr>" 0]
    by (simp add: example_lookups) (simp add: example_driver_def)
  have c: "digitalPin (IntKey 20) ?io ?e = (Inl (UnsupportedMode (IntKey 20)), ?io, ?e)"
    using digitalPin_failures [of "IntKey 20" ?io ?e _ _ _
        "\<lparr>N = 20, IDs = [''P9_19'', ''I2C2_SCL''], Caps = 2\<rparr>"]
    by (simp add: example_lookups CapNormal_def) (simp add: example_driver_def)
  have d: "fst (digitalPin (IntKey 30) ?io ?e) = Inr (DigitalPin 30 0)"
    using digitalPin_failures [of "IntKey 30" ?io ?e _ _ _
        "\<lparr>N = 30, IDs = [''P9_14''], Caps = 65\<rparr>"]
    by (simp add: example_lookups CapNormal_def) (simp add: example_driver_def example_env_def)
  from a b c d show ?thesis by blast
qed


subsection \<open>Closing all pins\<close>

lemma close_loop_close_reply: "close_reply (snd (close_loop ps e)) = close_reply e"
  by (induction ps arbitrary: e) (simp_all add: pin_Close_def split: option.splits)

lemma close_loop_all_succeed:
  assumes "\<forall>i<length ps. close_reply e (close_calls e @ take i ps) (ps ! i) = None"
  shows "close_loop ps e = (None, e\<lparr>close_calls := close_calls e @ ps\<rparr>)"
  using assms
proof (induction ps arbitrary: e)
  case Nil
  then show ?case by simp
next
  case (Cons p ps)
  let ?e = "e\<lparr>close_calls := close_calls e @ [p]\<rparr>"
  from Cons.prems have first: "close_reply e (close_calls e) p = None" by force
  have "\<forall>i<length ps. close_reply ?e (close_calls ?e @ take i ps) (ps ! i) = None"
  proof (intro allI impI)
    fix i assume "i < length ps"
    then have "Suc i < length (p # ps)" by simp
    with Cons.prems [rule_format, of "Suc i"]
    show "close_reply ?e (close_calls ?e @ take i ps) (ps ! i) = None" by simp
  qed
  from Cons.IH [OF this] first show ?case by (simp add: pin_Close_def)
qed

lemma close_loop_append:
  "close_loop (ps @ qs) e =
     (case close_loop ps e of (Some err, e') \<Rightarrow> (Some err, e') | (None, e') \<Rightarrow> close_loop qs e')"
  by (induction ps arbitrary: e) (simp_all add: pin_Close_def split: option.splits)

lemma close_loop_first_failure:
  assumes "k < length ps"
    and "\<forall>i<k. close_reply e (close_calls e @ take i ps) (ps ! i) = None"
    and "close_reply e (close_calls e @ take k ps) (ps ! k) = Some err"
  shows "close_loop ps e = (Some err, e\<lparr>close_calls := close_calls e @ take (Suc k) ps\<rparr>)"
proof -
  have "\<forall>i<length (take k ps). close_reply e (close_calls e @ take i (take k ps)) (take k ps ! i) = None"
    using assms(1,2) by (simp add: min_def)
  from close_loop_all_succeed [OF this]
  have pre: "close_loop (take k ps) e = (None, e\<lparr>close_calls := close_calls e @ take k ps\<rparr>)" .
  have "close_loop ps e = close_loop (take k ps @ ps ! k # drop (Suc k) ps) e"
    using assms(1) by (simp add: id_take_nth_drop [symmetric])
  also have "\<dots> = (Some err, e\<lparr>close_calls := close_calls e @ take (Suc k) ps\<rparr>)"
    unfolding close_loop_append pre using assms(1,3)
    by (simp add: pin_Close_def take_Suc_conv_app_nth)
  finally show ?thesis .
qed

lemma set_map_filter_dom:
  assumes "set order = dom f"
  shows "set (List.map_filter f order) = ran f"
proof -
  have "set (List.map_filter f order) = {y. \<exists>x\<in>set order. f x = Some y}"
    by (induction order) (auto simp add: map_filter_simps split: option.splits)
  with assms show ?thesis by (auto simp add: ran_def dom_def)
qed

lemma length_map_filter_dom:
  assumes "set order \<subseteq> dom f"
  shows "length (List.map_filter f order) = length order"
  using assms by (induction order) (auto simp add: map_filter_simps split: option.splits)

text \<open>
  C8. Let \<open>ps\<close> be the handles of the map in the order the range visits them. If every
  \<open>Close()\<close> succeeds, \<open>Close\<close> has called it on each handle of \<open>ps\<close>, in order, and
  returns no error. If the call on the handle at index \<open>k\<close> is the first to fail,
  \<open>Close\<close> returns that error, and \<open>Close()\<close> was called on the first \<open>k + 1\<close>
  handles only: the later ones were not attempted. In both cases the driver is returned
  as it was, with every entry still in the map. When the order lists the keys of the map,
  \<open>ps\<close> holds exactly the handles of the map.
\<close>

theorem Close_stops_at_first_failure:
  "let ps = List.map_filter (initializedPins io) order
   in ((\<forall>i<length ps. close_reply e (close_calls e @ take i ps) (ps ! i) = None) \<longrightarrow>
         Close order io e = (None, io, e\<lparr>close_calls := close_calls e @ ps\<rparr>))
    \<and> (\<forall>k err. k < length ps
            \<and> (\<forall>i<k. close_reply e (close_calls e @ take i ps) (ps ! i) = None)
            \<and> close_reply e (close_calls e @ take k ps) (ps ! k) = Some err \<longrightarrow>
         Close order io e = (Some err, io, e\<lparr>close_calls := close_calls e @ take (Suc k) ps\<rparr>))
    \<and> (set order = dom (initializedPins io) \<longrightarrow>
         set ps = ran (initializedPins io) \<and> length ps = length order)"
  unfolding Let_def Close_def
proof (intro conjI impI allI, goal_cases)
  case 1
  then show ?case by (simp add: close_loop_all_succeed)
next
  case (2 k err)
  then have "close_loop (List.map_filter (initializedPins io) order) e =
      (Some err, e\<lparr>close_calls := close_calls e @ take (Suc k) (List.map_filter (initializedPins io) order)\<rparr>)"
    by (intro close_loop_first_failure) simp_all
  then show ?case by simp
next
  case 3
  then show ?case by (rule set_map_filter_dom)
next
  case 4
  then show ?case by (intro length_map_filter_dom) simp
qed
text \<open>
  The theorem on a driver holding pins 10 and 30, visited in this order: with handles
  that close, both are closed; when the first \<open>Close()\<close> fails, the handle of pin 30 is
  not attempted, and both stay in the map.
\<close>

theorem Close_witness:
  "Close [10, 30] (example_driver [10 \<mapsto> DigitalHandle (DigitalPin 10 0), 30 \<mapsto> DigitalHandle (DigitalPin 30 1)])
      (example_env no_error)
     = (None,
        example_driver [10 \<mapsto> DigitalHandle (DigitalPin 10 0), 30 \<mapsto> DigitalHandle (DigitalPin 30 1)],
        (example_env no_error)\<lparr>close_calls := [DigitalHandle (DigitalPin 10 0), DigitalHandle (DigitalPin 30 1)]\<rparr>)
   \<and> Close [10, 30] (example_driver [10 \<mapsto> DigitalHandle (DigitalPin 10 0), 30 \<mapsto> DigitalHandle (DigitalPin 30 1)])
      (example_env (error_at 0))
     = (Some (IOError 0),
        example_driver [10 \<mapsto> DigitalHandle (DigitalPin 10 0), 30 \<mapsto> DigitalHandle (DigitalPin 30 1)],
        (example_env (error_at 0))\<lparr>close_calls := [DigitalHandle (DigitalPin 10 0)]\<rparr>)
   \<and> set [DigitalHandle (DigitalPin 10 0), DigitalHandle (DigitalPin 30 1)]
     = ran (initializedPins (example_driver
         [10 \<mapsto> DigitalHandle (DigitalPin 10 0), 30 \<mapsto> DigitalHandle (DigitalPin 30 1)]))"
proof -
  let ?io = "example_driver [10 \<mapsto> DigitalHandle (DigitalPin 10 0), 30 \<mapsto> DigitalHandle (DigitalPin 30 1)]"
  have ps: "List.map_filter (initializedPins ?io) [10, 30]
      = [DigitalHandle (DigitalPin 10 0), DigitalHandle (DigitalPin 30 1)]"
    by (simp add: example_driver_def map_filter_simps)
  have a: "Close [10, 30] ?io (example_env no_error)
     = (None, ?io, (example_env no_error)\<lparr>close_calls := [DigitalHandle (DigitalPin 10 0), DigitalHandle (DigitalPin 30 1)]\<rparr>)"
    using Close_stops_at_first_failure [of ?io "[10, 30]" "example_env no_error", unfolded Let_def ps,
        THEN conjunct1]
    by (simp add: example_env_def no_error_def)
  have b: "Close [10, 30] ?io (example_env (error_at 0))
     = (Some (IOError 0), ?io, (example_env (error_at 0))\<lparr>close_calls := [DigitalHandle (DigitalPin 10 0)]\<rparr>)"
    using Close_stops_at_first_failure [of ?io "[10, 30]" "example_env (error_at 0)", unfolded Let_def ps,
        THEN conjunct2, THEN conjunct1, rule_format, of 0 "IOError 0"]
    by (simp add: example_env_def error_at_def)
  have keys: "set [10, 30] = dom (initializedPins ?io)"
    by (auto simp add: example_driver_def)
  have c: "set [DigitalHandle (DigitalPin 10 0), DigitalHandle (DigitalPin 30 1)] = ran (initializedPins ?io)"
    using Close_stops_at_first_failure [of ?io "[10, 30]" "example_env no_error", unfolded Let_def ps,
        THEN conjunct2, THEN conjunct2, rule_format, OF keys]
    by simp
  from a b c show ?thesis by (intro conjI)
qed

end
